theory Spec2Isabelle
  imports Complex_Main "HOL-Library.Sublist"
begin

section \<open>The stardust table: data model\<close>

text \<open>
  The module \<open>stardustlib.py\<close> keeps a pandas table of presolar grain measurements in
  \<open>self.db\<close> and an untouched copy of it in \<open>self._db\<close>. A cell of the table is a
  number, a text, or pandas' missing value.
\<close>

datatype cell = Num real | Str string | NaN

text \<open>
  A table has column names and rows; a row is its index label (the first column of the
  csv file) and its cells, in the order of the columns.
\<close>

record dataframe =
  columns :: "string list"
  rows :: "(string \<times> cell list) list"

text \<open>The exceptions the module can raise. \<open>NotModelled\<close> marks the one place where
  the table library's behaviour is left out of the model: a working table in which a
  column name is repeated, which the csv reader never produces (it renames repeats).\<close>

datatype error = IndexError | KeyError | ValueError | TypeError | SyntaxError | NotModelled

text \<open>The csv reader fills a row that is too short with missing values.\<close>

definition cell_at :: "cell list \<Rightarrow> nat \<Rightarrow> cell" where
  "cell_at r p = (if p < length r then r ! p else NaN)"

definition col_positions :: "string list \<Rightarrow> string \<Rightarrow> nat list" where
  "col_positions cols name = filter (\<lambda>i. cols ! i = name) [0..<length cols]"

text \<open>\<open>df[name]\<close>: a missing name raises, a name that occurs once gives the column
  (a Series), a repeated name gives a table of all the columns of that name.\<close>

datatype selection = Series "cell list" | Frame "cell list list"

definition getitem :: "dataframe \<Rightarrow> string \<Rightarrow> error + selection" where
  "getitem df name =
     (case col_positions (columns df) name of
        [] \<Rightarrow> Inl KeyError
      | [p] \<Rightarrow> Inr (Series (map (\<lambda>r. cell_at (snd r) p) (rows df)))
      | ps \<Rightarrow> Inr (Frame (map (\<lambda>r. map (cell_at (snd r)) ps) (rows df))))"

text \<open>The comparison operators that \<open>eval\<close> can meet in \<open>filter_value\<close>.\<close>

datatype pyop = Lt | Gt | Le | Ge | Eq

fun py_compare :: "pyop \<Rightarrow> real \<Rightarrow> real \<Rightarrow> bool" where
  "py_compare Lt x v = (x < v)"
| "py_compare Gt x v = (x > v)"
| "py_compare Le x v = (x \<le> v)"
| "py_compare Ge x v = (x \<ge> v)"
| "py_compare Eq x v = (x = v)"

text \<open>One cell against a number: a missing value compares false, a text is unequal to
  every number and cannot be ordered against one.\<close>

fun cmp_cell :: "pyop \<Rightarrow> real \<Rightarrow> cell \<Rightarrow> error + bool" where
  "cmp_cell opr v (Num x) = Inr (py_compare opr x v)"
| "cmp_cell opr v NaN = Inr False"
| "cmp_cell Eq v (Str s) = Inr False"
| "cmp_cell opr v (Str s) = Inl TypeError"

fun series_cmp :: "pyop \<Rightarrow> real \<Rightarrow> cell list \<Rightarrow> error + bool list" where
  "series_cmp opr v [] = Inr []"
| "series_cmp opr v (c # cs) =
     (case cmp_cell opr v c of
        Inl e \<Rightarrow> Inl e
      | Inr b \<Rightarrow> (case series_cmp opr v cs of Inl e \<Rightarrow> Inl e | Inr bs \<Rightarrow> Inr (b # bs)))"

text \<open>\<open>df[mask]\<close> with a boolean column: the rows whose mask entry is true.\<close>

definition boolean_index :: "dataframe \<Rightarrow> bool list \<Rightarrow> dataframe" where
  "boolean_index df bs = df\<lparr>rows := map fst (filter snd (zip (rows df) bs))\<rparr>"

text \<open>\<open>Series.isin(values)\<close> with a list of texts.\<close>

fun isin :: "string list \<Rightarrow> cell \<Rightarrow> bool" where
  "isin gs (Str s) = (s \<in> set gs)"
| "isin gs (Num x) = False"
| "isin gs NaN = False"

text \<open>\<open>df[[n1, n2, ...]]\<close>: a new table of the named columns, in the order asked for;
  a name that is no column raises.\<close>

definition select_columns :: "dataframe \<Rightarrow> string list \<Rightarrow> error + dataframe" where
  "select_columns df names =
     (if list_ex (\<lambda>n. col_positions (columns df) n = []) names then Inl KeyError
      else (let ps = concat (map (col_positions (columns df)) names)
            in Inr \<lparr>columns = map (\<lambda>p. columns df ! p) ps,
                    rows = map (\<lambda>r. (fst r, map (cell_at (snd r)) ps)) (rows df)\<rparr>))"

text \<open>\<open>dropna\<close>: the rows without a missing value.\<close>

definition complete_row :: "nat \<Rightarrow> string \<times> cell list \<Rightarrow> bool" where
  "complete_row n r = list_all (\<lambda>p. cell_at (snd r) p \<noteq> NaN) [0..<n]"

definition dropna :: "dataframe \<Rightarrow> dataframe" where
  "dropna df = df\<lparr>rows := filter (complete_row (length (columns df))) (rows df)\<rparr>"

datatype ndarray = Array1 "cell list" | Array2 "cell list list"

fun to_numpy :: "selection \<Rightarrow> ndarray" where
  "to_numpy (Series xs) = Array1 xs"
| "to_numpy (Frame xss) = Array2 xss"

section \<open>The isotope name codec\<close>

text \<open>Python's \<open>str.split(sep)\<close> for a separator of one character.\<close>

fun split_sep :: "char \<Rightarrow> string \<Rightarrow> string list" where
  "split_sep c [] = [[]]"
| "split_sep c (x # xs) =
     (if x = c then [] # split_sep c xs
      else (case split_sep c xs of [] \<Rightarrow> [[x]] | w # ws \<Rightarrow> (x # w) # ws))"

definition create_db_iso :: "string \<Rightarrow> error + string" where
  "create_db_iso lbl =
     (case split_sep (CHR ''-'') lbl of
        a # b # rest \<Rightarrow> Inr (b @ a)
      | _ \<Rightarrow> Inl IndexError)"

section \<open>The object and its methods\<close>

text \<open>
  Tables are objects on a heap; the fields \<open>db\<close> and \<open>_db\<close> of the object hold
  references. Every method returns its result, or the exception it raised, together
  with the state it leaves behind.
\<close>

record StarDust =
  db :: nat
  db_backup :: nat

record state =
  heap :: "dataframe list"
  self :: StarDust

definition alloc :: "dataframe list \<Rightarrow> dataframe \<Rightarrow> nat \<times> dataframe list" where
  "alloc h df = (length h, h @ [df])"

definition working :: "state \<Rightarrow> dataframe" where
  "working st = heap st ! db (self st)"

definition backup :: "state \<Rightarrow> dataframe" where
  "backup st = heap st ! db_backup (self st)"

text \<open>\<open>__init__\<close>, from the table that the csv reader returned.\<close>

definition init :: "dataframe \<Rightarrow> state" where
  "init df =
     (let (a, h) = alloc [] df;
          (b, h') = alloc h (h ! a)
      in \<lparr>heap = h', self = \<lparr>db = a, db_backup = b\<rparr>\<rparr>)"

definition header_ratio ::
  "string \<Rightarrow> string \<Rightarrow> state \<Rightarrow> (error + string \<times> bool) \<times> state" where
  "header_ratio iso1 iso2 st =
     (let header = columns (working st) in
      case create_db_iso iso1 of
        Inl e \<Rightarrow> (Inl e, st)
      | Inr i1 \<Rightarrow>
     (case create_db_iso iso2 of
        Inl e \<Rightarrow> (Inl e, st)
      | Inr i2 \<Rightarrow>
        (let hdr_ratio = i1 @ ''/'' @ i2;
             hdr_delta = ''d('' @ hdr_ratio @ '')''
         in if hdr_delta \<in> set header then (Inr (hdr_delta, True), st)
            else if hdr_ratio \<in> set header then (Inr (hdr_ratio, False), st)
            else (Inr (''none'', False), st))))"

definition comp_dict :: "string \<rightharpoonup> string" where
  "comp_dict = map_of
     [(''<'', ''<''), (''>'', ''>''), (''<='', ''<=''), (''=<'', ''<=''),
      (''>='', ''>=''), (''=>'', ''>=''), (''='', ''=='')]"

text \<open>The operator that \<open>eval\<close> reads in the text of the comparison.\<close>

definition parse_op :: "string \<rightharpoonup> pyop" where
  "parse_op = map_of
     [(''<'', Lt), (''>'', Gt), (''<='', Le), (''>='', Ge), (''=='', Eq)]"

definition error_header :: "string \<Rightarrow> string" where
  "error_header hdr = ''err['' @ hdr @ '']''"

definition filter_value ::
  "real \<Rightarrow> string \<Rightarrow> string \<Rightarrow> string \<Rightarrow> bool \<Rightarrow> state \<Rightarrow> (error + unit) \<times> state" where
  "filter_value v iso1 iso2 comparator err st =
     (case fst (header_ratio iso1 iso2 st) of
        Inl e \<Rightarrow> (Inl e, st)
      | Inr (hdr0, delta) \<Rightarrow>
     (let hdr = (if err then error_header hdr0 else hdr0) in
      case comp_dict comparator of
        None \<Rightarrow> (Inl ValueError, st)
      | Some optext \<Rightarrow>
     (case getitem (working st) hdr of
        Inl e \<Rightarrow> (Inl e, st)
      | Inr (Frame xss) \<Rightarrow> (Inl NotModelled, st)
      | Inr (Series xs) \<Rightarrow>
     (case parse_op optext of
        None \<Rightarrow> (Inl SyntaxError, st)
      | Some opr \<Rightarrow>
     (case series_cmp opr v xs of
        Inl e \<Rightarrow> (Inl e, st)
      | Inr bs \<Rightarrow>
        (let (a, h) = alloc (heap st) (boolean_index (working st) bs)
         in (Inr (), st\<lparr>heap := h, self := (self st)\<lparr>db := a\<rparr>\<rparr>)))))))"

datatype grain_arg = One string | Many "string list"

fun as_list :: "grain_arg \<Rightarrow> string list" where
  "as_list (One g) = [g]"
| "as_list (Many gs) = gs"

definition filter_type :: "grain_arg \<Rightarrow> state \<Rightarrow> (error + unit) \<times> state" where
  "filter_type grain_type st =
     (let gs = as_list grain_type in
      case getitem (working st) ''PGD Type'' of
        Inl e \<Rightarrow> (Inl e, st)
      | Inr (Frame xss) \<Rightarrow> (Inl NotModelled, st)
      | Inr (Series xs) \<Rightarrow>
        (let (a, h) = alloc (heap st) (boolean_index (working st) (map (isin gs) xs))
         in (Inr (), st\<lparr>heap := h, self := (self st)\<lparr>db := a\<rparr>\<rparr>)))"

definition reset :: "state \<Rightarrow> (error + unit) \<times> state" where
  "reset st =
     (let (a, h) = alloc (heap st) (backup st)
      in (Inr (), st\<lparr>heap := h, self := (self st)\<lparr>db := a\<rparr>\<rparr>))"

text \<open>
  \<open>return_ratios\<close> builds the table of the four columns (a new object), copies it
  (another new object) and drops the incomplete rows of the copy in place.
\<close>

definition return_ratios ::
  "string \<times> string \<Rightarrow> string \<times> string \<Rightarrow> state \<Rightarrow>
     (error + ndarray \<times> ndarray \<times> ndarray \<times> ndarray) \<times> state" where
  "return_ratios isos1 isos2 st =
     (case fst (header_ratio (fst isos1) (snd isos1) st) of
        Inl e \<Rightarrow> (Inl e, st)
      | Inr (hdr_x, dx) \<Rightarrow>
     (case fst (header_ratio (fst isos2) (snd isos2) st) of
        Inl e \<Rightarrow> (Inl e, st)
      | Inr (hdr_y, dy) \<Rightarrow>
     (let hdr_x_err = error_header hdr_x;
          hdr_y_err = error_header hdr_y
      in case select_columns (working st) [hdr_x, hdr_y, hdr_x_err, hdr_y_err] of
        Inl e \<Rightarrow> (Inl e, st)
      | Inr sel \<Rightarrow>
        (let (a, h1) = alloc (heap st) sel;
             (b, h2) = alloc h1 (h1 ! a);
             h3 = h2[b := dropna (h2 ! b)];
             df = h3 ! b;
             st' = st\<lparr>heap := h3\<rparr>
         in case getitem df hdr_x of Inl e \<Rightarrow> (Inl e, st') | Inr x \<Rightarrow>
           (case getitem df hdr_y of Inl e \<Rightarrow> (Inl e, st') | Inr y \<Rightarrow>
           (case getitem df hdr_x_err of Inl e \<Rightarrow> (Inl e, st') | Inr xe \<Rightarrow>
           (case getitem df hdr_y_err of Inl e \<Rightarrow> (Inl e, st') | Inr ye \<Rightarrow>
              (Inr (to_numpy x, to_numpy y, to_numpy xe, to_numpy ye), st'))))))))"

text \<open>A client program is a list of calls; an exception leaves the state it was
  raised in, so the state after a call is the same whether it is caught or not.\<close>

datatype call =
    FilterValue real string string string bool
  | FilterType grain_arg
  | Reset
  | HeaderRatio string string
  | ReturnRatios "string \<times> string" "string \<times> string"

fun exec :: "call \<Rightarrow> state \<Rightarrow> state" where
  "exec (FilterValue v iso1 iso2 c err) st = snd (filter_value v iso1 iso2 c err st)"
| "exec (FilterType g) st = snd (filter_type g st)"
| "exec Reset st = snd (reset st)"
| "exec (HeaderRatio iso1 iso2) st = snd (header_ratio iso1 iso2 st)"
| "exec (ReturnRatios p q) st = snd (return_ratios p q st)"

definition run :: "call list \<Rightarrow> state \<Rightarrow> state" where
  "run cs st = fold exec cs st"

section \<open>Reading a table\<close>

text \<open>The position of a column name, and the cell of a row under a column name.\<close>

definition first_pos :: "string list \<Rightarrow> string \<Rightarrow> nat" where
  "first_pos cols name = length (takeWhile (\<lambda>c. c \<noteq> name) cols)"

definition value_in :: "dataframe \<Rightarrow> string \<Rightarrow> string \<times> cell list \<Rightarrow> cell" where
  "value_in df name r = cell_at (snd r) (first_pos (columns df) name)"

text \<open>
  The comparators as the specification lists them, and as the code reads them: the
  dictionary \<open>comp_dict\<close> followed by the operator that \<open>eval\<close> parses.
\<close>

definition spec_comparator :: "string \<Rightarrow> (real \<Rightarrow> real \<Rightarrow> bool) option" where
  "spec_comparator c =
     (if c = ''<'' then Some (\<lambda>x v. x < v)
      else if c = ''>'' then Some (\<lambda>x v. x > v)
      else if c = ''<='' \<or> c = ''=<'' then Some (\<lambda>x v. x \<le> v)
      else if c = ''>='' \<or> c = ''=>'' then Some (\<lambda>x v. x \<ge> v)
      else if c = ''='' then Some (\<lambda>x v. x = v)
      else None)"

definition code_comparator :: "string \<Rightarrow> (real \<Rightarrow> real \<Rightarrow> bool) option" where
  "code_comparator c =
     (case comp_dict c of
        None \<Rightarrow> None
      | Some t \<Rightarrow> map_option py_compare (parse_op t))"

text \<open>A cell satisfies a comparison when it is a number that does.\<close>

definition satisfies :: "(real \<Rightarrow> real \<Rightarrow> bool) \<Rightarrow> real \<Rightarrow> cell \<Rightarrow> bool" where
  "satisfies rel v c = (case c of Num x \<Rightarrow> rel x v | Str s \<Rightarrow> False | NaN \<Rightarrow> False)"

text \<open>A column is numeric when it holds numbers and missing values only, as the
  ratio and error columns of the database do.\<close>

definition numeric_column :: "dataframe \<Rightarrow> string \<Rightarrow> bool" where
  "numeric_column df name =
     list_all (\<lambda>r. case value_in df name r of Str s \<Rightarrow> False | Num x \<Rightarrow> True | NaN \<Rightarrow> True)
       (rows df)"

section \<open>The codec\<close>

lemma split_sep_no_sep: "c \<notin> set s \<Longrightarrow> split_sep c s = [s]"
  by (induction s) auto

lemma split_sep_ne: "split_sep c s \<noteq> []"
  by (induction s) (auto split: list.splits)

lemma split_sep_append:
  "c \<notin> set a \<Longrightarrow> split_sep c (a @ c # s) = a # split_sep c s"
  by (induction a) auto

lemma split_sep_single: "split_sep c s = [w] \<Longrightarrow> c \<notin> set s"
proof (induction s arbitrary: w)
  case Nil
  then show ?case by simp
next
  case (Cons x xs)
  show ?case
  proof (cases "x = c")
    case True
    with Cons.prems split_sep_ne [of c xs] show ?thesis by simp
  next
    case False
    with Cons.prems split_sep_ne [of c xs] obtain w' where "split_sep c xs = [w']"
      by (auto split: list.splits)
    with Cons.IH False show ?thesis by simp
  qed
qed

lemma create_db_iso_error_iff:
  "(\<exists>e. create_db_iso lbl = Inl e) \<longleftrightarrow> CHR ''-'' \<notin> set lbl"
proof
  assume "\<exists>e. create_db_iso lbl = Inl e"
  then obtain w where "split_sep (CHR ''-'') lbl = [w]"
    using split_sep_ne [of "CHR ''-''" lbl]
    by (auto simp: create_db_iso_def split: list.splits)
  then show "CHR ''-'' \<notin> set lbl" by (rule split_sep_single)
next
  assume "CHR ''-'' \<notin> set lbl"
  then show "\<exists>e. create_db_iso lbl = Inl e"
    by (simp add: create_db_iso_def split_sep_no_sep)
qed

lemma create_db_iso_parts:
  assumes "CHR ''-'' \<notin> set el"
  shows "create_db_iso (el @ ''-'' @ s) = Inr (takeWhile (\<lambda>x. x \<noteq> CHR ''-'') s @ el)"
proof -
  have hd_split: "\<exists>ws. split_sep c t = takeWhile (\<lambda>x. x \<noteq> c) t # ws" for c t
    by (induction t) (auto split: list.splits)
  obtain ws where "split_sep (CHR ''-'') s = takeWhile (\<lambda>x. x \<noteq> CHR ''-'') s # ws"
    using hd_split by blast
  with assms show ?thesis
    by (simp add: create_db_iso_def split_sep_append)
qed

text \<open>
  C8 (as the code has it). \<open>create_db_iso\<close> raises exactly when the label holds no
  separator, and the exception is Python's IndexError. It checks nothing else: whenever
  the element part holds no separator, the result is the text between the first and the
  second separator (or the end) followed by the element part, so a well-formed label
  \<open>Element-MassNumber\<close> gives \<open>MassNumber\<close> followed by \<open>Element\<close>, a second separator
  and what follows it are ignored, and empty parts are accepted.
\<close>

theorem create_db_iso_spec:
  "(create_db_iso lbl = Inl IndexError \<longleftrightarrow> CHR ''-'' \<notin> set lbl) \<and>
   ((\<exists>e. create_db_iso lbl = Inl e) \<longleftrightarrow> CHR ''-'' \<notin> set lbl) \<and>
   (CHR ''-'' \<notin> set el \<longrightarrow>
      create_db_iso (el @ ''-'' @ s) = Inr (takeWhile (\<lambda>x. x \<noteq> CHR ''-'') s @ el)) \<and>
   (CHR ''-'' \<notin> set el \<longrightarrow> CHR ''-'' \<notin> set ms \<longrightarrow>
      create_db_iso (el @ ''-'' @ ms) = Inr (ms @ el))"
proof -
  have a: "(\<exists>e. create_db_iso lbl = Inl e) \<longleftrightarrow> CHR ''-'' \<notin> set lbl"
    by (rule create_db_iso_error_iff)
  have "create_db_iso lbl = Inl e \<Longrightarrow> e = IndexError" for e
    by (auto simp: create_db_iso_def split: list.splits)
  with a have b: "create_db_iso lbl = Inl IndexError \<longleftrightarrow> CHR ''-'' \<notin> set lbl"
    by blast
  have c: "CHR ''-'' \<notin> set el \<longrightarrow>
      create_db_iso (el @ ''-'' @ s) = Inr (takeWhile (\<lambda>x. x \<noteq> CHR ''-'') s @ el)"
    using create_db_iso_parts by blast
  have d: "CHR ''-'' \<notin> set el \<longrightarrow> CHR ''-'' \<notin> set ms \<longrightarrow>
      create_db_iso (el @ ''-'' @ ms) = Inr (ms @ el)"
    using create_db_iso_parts [of el ms] by (auto simp: takeWhile_eq_all_conv)
  from a b c d show ?thesis by blast
qed

theorem create_db_iso_spec_witness:
  "CHR ''-'' \<notin> set ''Si'' \<and> CHR ''-'' \<notin> set ''28'' \<and>
   create_db_iso (''Si'' @ ''-'' @ ''28'') = Inr (''28'' @ ''Si'') \<and>
   CHR ''-'' \<notin> set ''Si28'' \<and> create_db_iso ''Si28'' = Inl IndexError"
  using create_db_iso_spec [of "''Si28''" "''Si''" "''28''" "''28''"]
  by simp

theorem create_db_iso_counterexample:
  "create_db_iso ''Si-28-x'' = Inr ''28Si'' \<and> create_db_iso ''-28'' = Inr ''28'' \<and>
   create_db_iso ''Si-'' = Inr ''Si''"
  by (simp add: create_db_iso_def)

section \<open>Columns, comparisons and row selection\<close>

lemma filter_upt_at_most_one:
  "(\<And>i. i < n \<Longrightarrow> P i \<Longrightarrow> i = k) \<Longrightarrow>
   filter P [0..<n] = (if k < n \<and> P k then [k] else [])"
proof (induction n)
  case 0
  then show ?case by simp
next
  case (Suc n)
  have ih: "filter P [0..<n] = (if k < n \<and> P k then [k] else [])"
    by (rule Suc.IH) (rule Suc.prems, simp_all)
  show ?case
  proof (cases "P n")
    case True
    then have "n = k" by (intro Suc.prems) simp_all
    with True ih show ?thesis by simp
  next
    case False
    then have "(k < Suc n \<and> P k) = (k < n \<and> P k)"
      using less_Suc_eq by blast
    with False ih show ?thesis by simp
  qed
qed

lemma filter_upt_single:
  assumes "k < n" and "P k" and "\<And>i. i < n \<Longrightarrow> P i \<Longrightarrow> i = k"
  shows "filter P [0..<n] = [k]"
proof -
  have "filter P [0..<n] = (if k < n \<and> P k then [k] else [])"
    by (rule filter_upt_at_most_one) (rule assms(3))
  with assms(1,2) show ?thesis by simp
qed

lemma first_pos_less: "name \<in> set cols \<Longrightarrow> first_pos cols name < length cols"
  unfolding first_pos_def by (induction cols) auto

lemma first_pos_nth: "name \<in> set cols \<Longrightarrow> cols ! first_pos cols name = name"
  unfolding first_pos_def by (induction cols) auto

lemma col_positions_distinct:
  assumes "distinct cols" and "name \<in> set cols"
  shows "col_positions cols name = [first_pos cols name]"
  unfolding col_positions_def
proof (rule filter_upt_single)
  show "first_pos cols name < length cols" using assms(2) by (rule first_pos_less)
  show "cols ! first_pos cols name = name" using assms(2) by (rule first_pos_nth)
  fix i assume "i < length cols" and "cols ! i = name"
  with first_pos_less [OF assms(2)] first_pos_nth [OF assms(2)]
  show "i = first_pos cols name"
    using nth_eq_iff_index_eq [OF assms(1), of i "first_pos cols name"] by simp
qed

lemma col_positions_empty: "col_positions cols name = [] \<longleftrightarrow> name \<notin> set cols"
  by (auto simp: col_positions_def filter_empty_conv in_set_conv_nth)

lemma getitem_distinct:
  assumes "distinct (columns df)" and "name \<in> set (columns df)"
  shows "getitem df name = Inr (Series (map (value_in df name) (rows df)))"
  using col_positions_distinct [OF assms]
  by (simp add: getitem_def value_in_def)

lemma getitem_missing: "name \<notin> set (columns df) \<Longrightarrow> getitem df name = Inl KeyError"
  using col_positions_empty [of "columns df" name] by (simp add: getitem_def)


lemma py_compare_funs:
  "py_compare Lt = (\<lambda>x v. x < v)" "py_compare Gt = (\<lambda>x v. x > v)"
  "py_compare Le = (\<lambda>x v. x \<le> v)" "py_compare Ge = (\<lambda>x v. x \<ge> v)"
  "py_compare Eq = (\<lambda>x v. x = v)"
  by (simp_all add: fun_eq_iff)

lemma comp_dict_dom:
  "comp_dict c \<noteq> None \<longleftrightarrow>
     c \<in> {''<'', ''>'', ''<='', ''=<'', ''>='', ''=>'', ''=''}"
  by (simp add: comp_dict_def)

lemma code_comparator_spec: "code_comparator c = spec_comparator c"
  by (simp add: code_comparator_def comp_dict_def parse_op_def spec_comparator_def
      py_compare_funs)

lemma code_comparator_SomeD:
  "code_comparator c = Some rel \<Longrightarrow>
     \<exists>t opr. comp_dict c = Some t \<and> parse_op t = Some opr \<and> rel = py_compare opr"
  by (auto simp: code_comparator_def split: option.splits)

lemma comp_dict_parses: "comp_dict c = Some t \<Longrightarrow> \<exists>opr. parse_op t = Some opr"
  by (auto simp: comp_dict_def parse_op_def split: if_splits)

lemma cmp_cell_numeric:
  "(\<forall>s. c \<noteq> Str s) \<or> opr = Eq \<Longrightarrow> cmp_cell opr v c = Inr (satisfies (py_compare opr) v c)"
  by (cases c; cases opr) (simp_all add: satisfies_def)

lemma cmp_cell_Inr: "cmp_cell opr v c = Inr b \<Longrightarrow> b = satisfies (py_compare opr) v c"
  by (cases c; cases opr) (auto simp: satisfies_def)

lemma series_cmp_numeric:
  "(\<forall>c\<in>set xs. \<forall>s. c \<noteq> Str s) \<or> opr = Eq \<Longrightarrow>
     series_cmp opr v xs = Inr (map (satisfies (py_compare opr) v) xs)"
proof (induction xs)
  case Nil
  then show ?case by simp
next
  case (Cons c cs)
  then have "cmp_cell opr v c = Inr (satisfies (py_compare opr) v c)"
    by (intro cmp_cell_numeric) auto
  moreover from Cons have "series_cmp opr v cs = Inr (map (satisfies (py_compare opr) v) cs)"
    by auto
  ultimately show ?case by simp
qed

lemma series_cmp_Inr:
  "series_cmp opr v xs = Inr bs \<Longrightarrow> bs = map (satisfies (py_compare opr) v) xs"
proof (induction xs arbitrary: bs)
  case Nil
  then show ?case by simp
next
  case (Cons c cs)
  then show ?case
    by (auto split: sum.splits dest: cmp_cell_Inr)
qed

lemma zip_map_filter: "map fst (filter snd (zip xs (map g xs))) = filter g xs"
  by (induction xs) auto

lemma boolean_index_map:
  "boolean_index df (map g (map f (rows df))) = df\<lparr>rows := filter (\<lambda>r. g (f r)) (rows df)\<rparr>"
  using zip_map_filter [of "rows df" "\<lambda>r. g (f r)"]
  by (simp add: boolean_index_def comp_def)

lemma subseq_zip_filter: "subseq (map fst (filter snd (zip xs bs))) xs"
proof (induction xs arbitrary: bs)
  case Nil
  then show ?case by simp
next
  case (Cons x xs)
  then show ?case by (cases bs) auto
qed

lemma boolean_index_columns [simp]: "columns (boolean_index df bs) = columns df"
  by (simp add: boolean_index_def)

lemma boolean_index_subseq: "subseq (rows (boolean_index df bs)) (rows df)"
  by (simp add: boolean_index_def subseq_zip_filter)

lemma numeric_columnD:
  "numeric_column df name \<Longrightarrow> \<forall>c\<in>set (map (value_in df name) (rows df)). \<forall>s. c \<noteq> Str s"
  by (auto simp: numeric_column_def list_all_iff split: cell.splits)

lemma filter_value_success:
  assumes dist: "distinct (columns (working st))"
    and hdr0: "fst (header_ratio iso1 iso2 st) = Inr (hdr0, d)"
    and hdr: "hdr = (if err then error_header hdr0 else hdr0)"
    and col: "hdr \<in> set (columns (working st))"
    and cmp: "comp_dict c = Some t" "parse_op t = Some opr"
    and num: "numeric_column (working st) hdr \<or> opr = Eq"
  shows "filter_value v iso1 iso2 c err st =
     (Inr (), st\<lparr>heap := heap st @
                  [(working st)\<lparr>rows := filter
                      (\<lambda>r. satisfies (py_compare opr) v (value_in (working st) hdr r))
                      (rows (working st))\<rparr>],
                self := (self st)\<lparr>db := length (heap st)\<rparr>\<rparr>)"
proof -
  let ?xs = "map (value_in (working st) hdr) (rows (working st))"
  have g: "getitem (working st) hdr = Inr (Series ?xs)"
    using dist col by (rule getitem_distinct)
  have s: "series_cmp opr v ?xs = Inr (map (satisfies (py_compare opr) v) ?xs)"
    using num numeric_columnD [of "working st" hdr] by (intro series_cmp_numeric) blast
  show ?thesis
    unfolding filter_value_def
    by (simp add: hdr0 hdr [symmetric] cmp g s alloc_def boolean_index_map del: map_map)
qed

lemma filter_value_state:
  "snd (filter_value v iso1 iso2 c err st) = st \<and> (\<exists>e. fst (filter_value v iso1 iso2 c err st) = Inl e) \<or>
   (\<exists>bs. filter_value v iso1 iso2 c err st =
      (Inr (), st\<lparr>heap := heap st @ [boolean_index (working st) bs],
                 self := (self st)\<lparr>db := length (heap st)\<rparr>\<rparr>))"
  unfolding filter_value_def
  by (auto simp: Let_def alloc_def split: sum.splits option.splits selection.splits prod.splits)

lemma filter_type_state:
  "snd (filter_type g st) = st \<and> (\<exists>e. fst (filter_type g st) = Inl e) \<or>
   (\<exists>bs. filter_type g st =
      (Inr (), st\<lparr>heap := heap st @ [boolean_index (working st) bs],
                 self := (self st)\<lparr>db := length (heap st)\<rparr>\<rparr>))"
  unfolding filter_type_def
  by (auto simp: Let_def alloc_def split: sum.splits option.splits selection.splits prod.splits)

end
